theory Spec2Isabelle
  imports Main "HOL-Library.Multiset"
begin

section \<open>TodoForge: the in-memory store and the REST routes\<close>

text \<open>
  The development embeds \<^verbatim>\<open>shared/schema.ts\<close>, \<^verbatim>\<open>server/storage.ts\<close> (class
  \<^verbatim>\<open>MemStorage\<close>) and the route handlers of \<^verbatim>\<open>registerRoutes\<close>.
  Two values come from the environment and are parameters of the model:
  the string returned by \<^verbatim>\<open>randomUUID()\<close> and the clock read by \<^verbatim>\<open>new Date()\<close>.
\<close>

subsection \<open>Data model (shared/schema.ts)\<close>

text \<open>A \<^verbatim>\<open>Date\<close> is its \<^verbatim>\<open>getTime()\<close> value: milliseconds since the epoch.\<close>

type_synonym timestamp = int

text \<open>
  A property of a JavaScript object literal that the type marks optional is in one of
  three states: the key is missing, the key is there with the value \<^verbatim>\<open>undefined\<close>, or
  the key is there with a value. The object spread \<^verbatim>\<open>{...a, ...b}\<close> copies every own
  key of \<^verbatim>\<open>b\<close>, also one whose value is \<^verbatim>\<open>undefined\<close>.
\<close>

datatype 'a optional = Absent | Undefined | Value 'a

text \<open>
  \<^verbatim>\<open>Todo\<close>, the row type of the table \<^verbatim>\<open>todos\<close>. The declared types are
  \<^verbatim>\<open>text: string\<close> and \<^verbatim>\<open>completed: boolean\<close>; an object built by a spread can
  lack either, and reading the property then gives \<^verbatim>\<open>undefined\<close>, which is \<open>None\<close>
  here.
\<close>

record Todo =
  todo_id :: string
  todo_text :: "string option"
  todo_completed :: "bool option"
  todo_createdAt :: timestamp

text \<open>
  \<^verbatim>\<open>InsertTodo\<close>, the type inferred from \<^verbatim>\<open>insertTodoSchema\<close>:
  \<^verbatim>\<open>{ text: string; completed?: boolean | undefined }\<close>.
\<close>

record InsertTodo =
  insert_text :: string
  insert_completed :: "bool optional"

text \<open>\<^verbatim>\<open>Partial<InsertTodo>\<close>: both properties optional.\<close>

record PartialInsertTodo =
  partial_text :: "string optional"
  partial_completed :: "bool optional"

text \<open>What a spread leaves in a property, given what was there before.\<close>

definition spread :: "'a option \<Rightarrow> 'a optional \<Rightarrow> 'a option" where
  "spread old p = (case p of Absent \<Rightarrow> old | Undefined \<Rightarrow> None | Value v \<Rightarrow> Some v)"

subsection \<open>The JavaScript Map\<close>

text \<open>
  A \<^verbatim>\<open>Map\<close> keeps its entries in insertion order: \<^verbatim>\<open>set\<close> on a key that is present
  replaces the value where the entry stands, \<^verbatim>\<open>set\<close> on a new key appends, and
  \<^verbatim>\<open>delete\<close> tells whether the key was there.
\<close>

type_synonym 'v js_map = "(string \<times> 'v) list"

definition Map_get :: "string \<Rightarrow> 'v js_map \<Rightarrow> 'v option" where
  "Map_get k m = map_of m k"

fun Map_set :: "string \<Rightarrow> 'v \<Rightarrow> 'v js_map \<Rightarrow> 'v js_map" where
  "Map_set k v [] = [(k, v)]"
| "Map_set k v ((k', v') # m) =
     (if k' = k then (k, v) # m else (k', v') # Map_set k v m)"

definition Map_has :: "string \<Rightarrow> 'v js_map \<Rightarrow> bool" where
  "Map_has k m = (k \<in> set (map fst m))"

definition Map_delete :: "string \<Rightarrow> 'v js_map \<Rightarrow> bool \<times> 'v js_map" where
  "Map_delete k m = (Map_has k m, filter (\<lambda>e. fst e \<noteq> k) m)"

definition Map_values :: "'v js_map \<Rightarrow> 'v list" where
  "Map_values m = map snd m"

subsection \<open>Array.prototype.sort with a comparator\<close>

text \<open>
  The sort is stable: of two elements the comparator does not separate, the one that
  came first stays first. Insertion from the right, each element going in front of
  the first one it does not have to follow, computes that order.
\<close>

fun insert_sorted :: "('a \<Rightarrow> 'a \<Rightarrow> int) \<Rightarrow> 'a \<Rightarrow> 'a list \<Rightarrow> 'a list" where
  "insert_sorted cmp x [] = [x]"
| "insert_sorted cmp x (y # ys) =
     (if cmp x y \<le> 0 then x # y # ys else y # insert_sorted cmp x ys)"

definition Array_sort :: "('a \<Rightarrow> 'a \<Rightarrow> int) \<Rightarrow> 'a list \<Rightarrow> 'a list" where
  "Array_sort cmp xs = foldr (insert_sorted cmp) xs []"

subsection \<open>MemStorage (server/storage.ts)\<close>

text \<open>
  The two private maps of the class. The user records are of type \<^verbatim>\<open>any\<close>; they are
  a type parameter, and no operation on todos reads or writes them.
\<close>

record 'u MemStorage =
  users :: "'u js_map"
  todos :: "Todo js_map"

definition MemStorage_new :: "'u MemStorage" where
  "MemStorage_new = \<lparr>users = [], todos = []\<rparr>"

text \<open>The comparator of \<^verbatim>\<open>getTodos\<close>: \<^verbatim>\<open>b.createdAt.getTime() - a.createdAt.getTime()\<close>.\<close>

definition newest_first :: "Todo \<Rightarrow> Todo \<Rightarrow> int" where
  "newest_first a b = todo_createdAt b - todo_createdAt a"

definition getTodos :: "'u MemStorage \<Rightarrow> Todo list" where
  "getTodos s = Array_sort newest_first (Map_values (todos s))"

definition getTodo :: "string \<Rightarrow> 'u MemStorage \<Rightarrow> Todo option" where
  "getTodo tid s = Map_get tid (todos s)"

text \<open>
  \<^verbatim>\<open>createTodo\<close>: \<open>uuid\<close> is what \<^verbatim>\<open>randomUUID()\<close> returned and \<open>now\<close> what
  \<^verbatim>\<open>new Date()\<close> read. The record is \<^verbatim>\<open>{...insertTodo, id, createdAt}\<close>: the two
  properties of the input are copied as they are, and nothing supplies a value for a
  property the input does not have.
\<close>

definition createTodo ::
  "string \<Rightarrow> timestamp \<Rightarrow> InsertTodo \<Rightarrow> 'u MemStorage \<Rightarrow> Todo \<times> 'u MemStorage" where
  "createTodo uuid now insertTodo s =
     (let todo = \<lparr>todo_id = uuid,
                  todo_text = spread None (Value (insert_text insertTodo)),
                  todo_completed = spread None (insert_completed insertTodo),
                  todo_createdAt = now\<rparr>
      in (todo, s\<lparr>todos := Map_set uuid todo (todos s)\<rparr>))"

text \<open>\<^verbatim>\<open>updateTodo\<close>: absent unless the id is a key; else \<^verbatim>\<open>{...existingTodo, ...updates}\<close>.\<close>

definition updateTodo ::
  "string \<Rightarrow> PartialInsertTodo \<Rightarrow> 'u MemStorage \<Rightarrow> Todo option \<times> 'u MemStorage" where
  "updateTodo tid updates s =
     (case Map_get tid (todos s) of
        None \<Rightarrow> (None, s)
      | Some existingTodo \<Rightarrow>
          (let updatedTodo = existingTodo
                 \<lparr>todo_text := spread (todo_text existingTodo) (partial_text updates),
                  todo_completed :=
                    spread (todo_completed existingTodo) (partial_completed updates)\<rparr>
           in (Some updatedTodo, s\<lparr>todos := Map_set tid updatedTodo (todos s)\<rparr>)))"

definition deleteTodo :: "string \<Rightarrow> 'u MemStorage \<Rightarrow> bool \<times> 'u MemStorage" where
  "deleteTodo tid s =
     (let (removed, m) = Map_delete tid (todos s) in (removed, s\<lparr>todos := m\<rparr>))"

text \<open>
  The states of a store: a new one, and whatever the three mutating operations on
  todos make of a state. The operations on users change the other map only, in ways
  the step \<open>users_changed\<close> covers.
\<close>

inductive reachable :: "'u MemStorage \<Rightarrow> bool" where
  new: "reachable MemStorage_new"
| create: "reachable s \<Longrightarrow> reachable (snd (createTodo uuid now insertTodo s))"
| update: "reachable s \<Longrightarrow> reachable (snd (updateTodo tid updates s))"
| delete: "reachable s \<Longrightarrow> reachable (snd (deleteTodo tid s))"
| users_changed: "reachable s \<Longrightarrow> reachable (s\<lparr>users := us\<rparr>)"

subsection \<open>Request bodies and the validation schema\<close>

text \<open>
  A request body as the JSON middleware hands it over. Only the kind of a number
  matters to the schema, so its value is kept as an integer. An object is the list of
  its properties, each key once.
\<close>

datatype json =
    JNull
  | JBoolean bool
  | JNumber int
  | JString string
  | JArray "json list"
  | JObject "(string \<times> json) list"

text \<open>
  The validation library classifies a value before it checks it; \<open>None\<close> is
  \<^verbatim>\<open>undefined\<close>, which is also what reading a missing property gives.
\<close>

datatype ZodParsedType =
  zod_undefined | zod_null | zod_boolean | zod_number | zod_string | zod_array | zod_object

fun getParsedType :: "json option \<Rightarrow> ZodParsedType" where
  "getParsedType None = zod_undefined"
| "getParsedType (Some JNull) = zod_null"
| "getParsedType (Some (JBoolean b)) = zod_boolean"
| "getParsedType (Some (JNumber n)) = zod_number"
| "getParsedType (Some (JString s)) = zod_string"
| "getParsedType (Some (JArray xs)) = zod_array"
| "getParsedType (Some (JObject kvs)) = zod_object"

text \<open>
  A validation issue. The schema of this program has type checks only, so every issue
  is of the code \<^verbatim>\<open>invalid_type\<close>: where, what was expected, what was received.
\<close>

record ZodIssue =
  issue_path :: "string list"
  issue_expected :: ZodParsedType
  issue_received :: ZodParsedType

text \<open>What a handler can catch: the error \<^verbatim>\<open>parse\<close> throws, or anything else.\<close>

datatype error = ZodError "ZodIssue list" | OtherError

definition z_string :: "string list \<Rightarrow> json option \<Rightarrow> ZodIssue list + string" where
  "z_string path v =
     (case v of
        Some (JString s) \<Rightarrow> Inr s
      | _ \<Rightarrow> Inl [\<lparr>issue_path = path, issue_expected = zod_string,
                  issue_received = getParsedType v\<rparr>])"

definition z_boolean :: "string list \<Rightarrow> json option \<Rightarrow> ZodIssue list + bool" where
  "z_boolean path v =
     (case v of
        Some (JBoolean b) \<Rightarrow> Inr b
      | _ \<Rightarrow> Inl [\<lparr>issue_path = path, issue_expected = zod_boolean,
                  issue_received = getParsedType v\<rparr>])"

text \<open>
  \<^verbatim>\<open>.optional()\<close>: \<^verbatim>\<open>undefined\<close> passes and the parsed object gets no such key; any
  other value goes to the schema inside.
\<close>

definition z_optional ::
  "(json option \<Rightarrow> ZodIssue list + 'a) \<Rightarrow> json option \<Rightarrow> ZodIssue list + 'a optional" where
  "z_optional inner v =
     (case v of
        None \<Rightarrow> Inr Absent
      | Some x \<Rightarrow> (case inner v of Inl errs \<Rightarrow> Inl errs | Inr a \<Rightarrow> Inr (Value a)))"

definition issues_of :: "ZodIssue list + 'a \<Rightarrow> ZodIssue list" where
  "issues_of r = (case r of Inl errs \<Rightarrow> errs | Inr a \<Rightarrow> [])"

text \<open>
  \<^verbatim>\<open>insertTodoSchema\<close> is the insert schema of the table without \<^verbatim>\<open>id\<close> and
  \<^verbatim>\<open>createdAt\<close>. The column \<^verbatim>\<open>text\<close> is \<^verbatim>\<open>text().notNull()\<close>, which gives a
  string schema with no constraint on its length; \<^verbatim>\<open>completed\<close> is
  \<^verbatim>\<open>boolean().notNull().default(false)\<close>, and a column with a default gives an
  optional schema: the default is the database's to apply, the schema does not fill it
  in. An object schema checks every property, collects the issues of all of them, and
  drops the keys it does not know.
\<close>

definition insertTodoSchema :: "json option \<Rightarrow> ZodIssue list + InsertTodo" where
  "insertTodoSchema data =
     (case data of
        Some (JObject kvs) \<Rightarrow>
          (let t = z_string [''text''] (map_of kvs ''text'');
               c = z_optional (z_boolean [''completed'']) (map_of kvs ''completed'')
           in case (t, c) of
                (Inr tv, Inr cv) \<Rightarrow> Inr \<lparr>insert_text = tv, insert_completed = cv\<rparr>
              | _ \<Rightarrow> Inl (issues_of t @ issues_of c))
      | _ \<Rightarrow> Inl [\<lparr>issue_path = [], issue_expected = zod_object,
                  issue_received = getParsedType data\<rparr>])"

text \<open>
  \<^verbatim>\<open>insertTodoSchema.partial()\<close> makes every property optional. (On \<^verbatim>\<open>completed\<close>,
  optional already, the second wrapper accepts what the first does.)
\<close>

definition insertTodoSchema_partial :: "json option \<Rightarrow> ZodIssue list + PartialInsertTodo" where
  "insertTodoSchema_partial data =
     (case data of
        Some (JObject kvs) \<Rightarrow>
          (let t = z_optional (z_string [''text'']) (map_of kvs ''text'');
               c = z_optional (z_boolean [''completed'']) (map_of kvs ''completed'')
           in case (t, c) of
                (Inr tv, Inr cv) \<Rightarrow> Inr \<lparr>partial_text = tv, partial_completed = cv\<rparr>
              | _ \<Rightarrow> Inl (issues_of t @ issues_of c))
      | _ \<Rightarrow> Inl [\<lparr>issue_path = [], issue_expected = zod_object,
                  issue_received = getParsedType data\<rparr>])"

text \<open>\<^verbatim>\<open>schema.parse(data)\<close> returns the parsed value or throws a \<^verbatim>\<open>ZodError\<close>.\<close>

definition parse :: "(json option \<Rightarrow> ZodIssue list + 'a) \<Rightarrow> json option \<Rightarrow> error + 'a" where
  "parse schema data =
     (case schema data of Inl errs \<Rightarrow> Inl (ZodError errs) | Inr v \<Rightarrow> Inr v)"

subsection \<open>The routes (registerRoutes)\<close>

datatype body =
    Json_todos "Todo list"
  | Json_todo Todo
  | Json_message string
  | Json_invalid string "ZodIssue list"
  | Empty

record response =
  status :: nat
  sent :: body

text \<open>The calls a handler makes on \<^verbatim>\<open>storage\<close>, in order.\<close>

datatype storage_call =
    Call_getTodos
  | Call_getTodo string
  | Call_createTodo InsertTodo
  | Call_updateTodo string PartialInsertTodo
  | Call_deleteTodo string

text \<open>What handling a request comes to: the response, the store after it, the calls made.\<close>

record 'u outcome =
  res :: response
  storage :: "'u MemStorage"
  calls :: "storage_call list"

text \<open>
  \<^verbatim>\<open>res.json(x)\<close> with no status set before sends 200. The operations of
  \<^verbatim>\<open>MemStorage\<close> do not throw, so the \<^verbatim>\<open>catch\<close> of a handler is entered only where
  \<^verbatim>\<open>parse\<close> throws.
\<close>

definition GET_api_todos :: "'u MemStorage \<Rightarrow> 'u outcome" where
  "GET_api_todos s =
     \<lparr>res = \<lparr>status = 200, sent = Json_todos (getTodos s)\<rparr>,
      storage = s, calls = [Call_getTodos]\<rparr>"

definition GET_api_todos_id :: "string \<Rightarrow> 'u MemStorage \<Rightarrow> 'u outcome" where
  "GET_api_todos_id tid s =
     (case getTodo tid s of
        None \<Rightarrow>
          \<lparr>res = \<lparr>status = 404, sent = Json_message ''Todo not found''\<rparr>,
           storage = s, calls = [Call_getTodo tid]\<rparr>
      | Some todo \<Rightarrow>
          \<lparr>res = \<lparr>status = 200, sent = Json_todo todo\<rparr>,
           storage = s, calls = [Call_getTodo tid]\<rparr>)"

definition POST_api_todos ::
  "string \<Rightarrow> timestamp \<Rightarrow> json option \<Rightarrow> 'u MemStorage \<Rightarrow> 'u outcome" where
  "POST_api_todos uuid now req_body s =
     (case parse insertTodoSchema req_body of
        Inr validatedData \<Rightarrow>
          (let (todo, s') = createTodo uuid now validatedData s
           in \<lparr>res = \<lparr>status = 201, sent = Json_todo todo\<rparr>,
               storage = s', calls = [Call_createTodo validatedData]\<rparr>)
      | Inl (ZodError errors) \<Rightarrow>
          \<lparr>res = \<lparr>status = 400, sent = Json_invalid ''Invalid todo data'' errors\<rparr>,
           storage = s, calls = []\<rparr>
      | Inl OtherError \<Rightarrow>
          \<lparr>res = \<lparr>status = 500, sent = Json_message ''Failed to create todo''\<rparr>,
           storage = s, calls = []\<rparr>)"

definition PATCH_api_todos_id :: "string \<Rightarrow> json option \<Rightarrow> 'u MemStorage \<Rightarrow> 'u outcome" where
  "PATCH_api_todos_id tid req_body s =
     (case parse insertTodoSchema_partial req_body of
        Inr updates \<Rightarrow>
          (case updateTodo tid updates s of
             (None, s') \<Rightarrow>
               \<lparr>res = \<lparr>status = 404, sent = Json_message ''Todo not found''\<rparr>,
                storage = s', calls = [Call_updateTodo tid updates]\<rparr>
           | (Some updatedTodo, s') \<Rightarrow>
               \<lparr>res = \<lparr>status = 200, sent = Json_todo updatedTodo\<rparr>,
                storage = s', calls = [Call_updateTodo tid updates]\<rparr>)
      | Inl (ZodError errors) \<Rightarrow>
          \<lparr>res = \<lparr>status = 400, sent = Json_invalid ''Invalid update data'' errors\<rparr>,
           storage = s, calls = []\<rparr>
      | Inl OtherError \<Rightarrow>
          \<lparr>res = \<lparr>status = 500, sent = Json_message ''Failed to update todo''\<rparr>,
           storage = s, calls = []\<rparr>)"

definition DELETE_api_todos_id :: "string \<Rightarrow> 'u MemStorage \<Rightarrow> 'u outcome" where
  "DELETE_api_todos_id tid s =
     (case deleteTodo tid s of
        (False, s') \<Rightarrow>
          \<lparr>res = \<lparr>status = 404, sent = Json_message ''Todo not found''\<rparr>,
           storage = s', calls = [Call_deleteTodo tid]\<rparr>
      | (True, s') \<Rightarrow>
          \<lparr>res = \<lparr>status = 204, sent = Empty\<rparr>,
           storage = s', calls = [Call_deleteTodo tid]\<rparr>)"

subsection \<open>Auxiliary notions\<close>

text \<open>The order \<^verbatim>\<open>getTodos\<close> is to produce: a todo stands before those created no later.\<close>

abbreviation newer_or_same :: "Todo \<Rightarrow> Todo \<Rightarrow> bool" where
  "newer_or_same a b \<equiv> todo_createdAt b \<le> todo_createdAt a"

text \<open>
  The shape of the map of todos that the operations keep: every key once, and every
  todo under the key that is its id.
\<close>

definition keyed_by_id :: "Todo js_map \<Rightarrow> bool" where
  "keyed_by_id m \<longleftrightarrow> distinct (map fst m) \<and> (\<forall>e \<in> set m. todo_id (snd e) = fst e)"

section \<open>Properties\<close>

subsection \<open>The Map and the sort\<close>

lemma map_of_Map_set: "map_of (Map_set k v m) = (map_of m)(k \<mapsto> v)"
  by (induction m) auto

lemma Map_get_Map_set: "Map_get k' (Map_set k v m) = (if k' = k then Some v else Map_get k' m)"
  by (simp add: Map_get_def map_of_Map_set)

lemma Map_set_unchanged: "map_of m k = Some v \<Longrightarrow> Map_set k v m = m"
  by (induction m) (auto split: if_splits)

lemma keys_Map_set: "fst ` set (Map_set k v m) = insert k (fst ` set m)"
  by (simp add: map_of_Map_set flip: dom_map_of_conv_image_fst)

lemma distinct_Map_set: "distinct (map fst m) \<Longrightarrow> distinct (map fst (Map_set k v m))"
  by (induction m) (auto simp: keys_Map_set)

lemma set_Map_set: "e \<in> set (Map_set k v m) \<Longrightarrow> e = (k, v) \<or> e \<in> set m"
  by (induction m) (auto split: if_splits)

lemma Map_set_new: "k \<notin> fst ` set m \<Longrightarrow> Map_set k v m = m @ [(k, v)]"
  by (induction m) auto


lemma map_of_filter_key: "map_of (filter (\<lambda>e. fst e \<noteq> k) m) k' = (if k' = k then None else map_of m k')"
  by (induction m) auto

lemma filter_key_absent: "k \<notin> fst ` set m \<Longrightarrow> filter (\<lambda>e. fst e \<noteq> k) m = m"
  by (induction m) auto

lemma Map_has_iff: "Map_has k m \<longleftrightarrow> map_of m k \<noteq> None"
  by (simp add: Map_has_def map_of_eq_None_iff)

lemma mset_insert_sorted: "mset (insert_sorted cmp x xs) = add_mset x (mset xs)"
  by (induction xs) auto

lemma mset_Array_sort: "mset (Array_sort cmp xs) = mset xs"
  by (induction xs) (auto simp: Array_sort_def mset_insert_sorted)

lemma set_insert_sorted: "set (insert_sorted cmp x xs) = insert x (set xs)"
  by (induction xs) auto

lemma sorted_insert_sorted:
  "sorted_wrt newer_or_same xs \<Longrightarrow> sorted_wrt newer_or_same (insert_sorted newest_first x xs)"
  by (induction xs) (auto simp: set_insert_sorted newest_first_def)

lemma sorted_Array_sort: "sorted_wrt newer_or_same (Array_sort newest_first xs)"
proof (induction xs)
  case Nil
  show ?case by (simp add: Array_sort_def)
next
  case (Cons x xs)
  then show ?case
    using sorted_insert_sorted [of "Array_sort newest_first xs" x]
    by (simp add: Array_sort_def)
qed

subsection \<open>Every entry of the store is filed under its own id\<close>

lemma keyed_by_id_Map_set:
  assumes "keyed_by_id m" and "todo_id t = k"
  shows "keyed_by_id (Map_set k t m)"
proof -
  have "distinct (map fst (Map_set k t m))"
    using assms(1) by (simp add: keyed_by_id_def distinct_Map_set)
  moreover have "todo_id (snd e) = fst e" if "e \<in> set (Map_set k t m)" for e
    using set_Map_set [OF that] assms by (auto simp: keyed_by_id_def)
  ultimately show ?thesis by (simp add: keyed_by_id_def)
qed

lemma keyed_by_id_filter: "keyed_by_id m \<Longrightarrow> keyed_by_id (filter P m)"
  by (simp add: keyed_by_id_def distinct_map_filter)

lemma reachable_keyed_by_id: "reachable s \<Longrightarrow> keyed_by_id (todos s)"
proof (induction rule: reachable.induct)
  case new
  show ?case by (simp add: MemStorage_new_def keyed_by_id_def)
next
  case (create s uuid now insertTodo)
  then show ?case by (simp add: createTodo_def Let_def keyed_by_id_Map_set)
next
  case (update s tid updates)
  show ?case
  proof (cases "Map_get tid (todos s)")
    case None
    with update show ?thesis by (simp add: updateTodo_def)
  next
    case (Some t)
    have "todo_id t = tid"
      using Some update.IH by (auto simp: keyed_by_id_def Map_get_def dest: map_of_SomeD)
    with Some update.IH show ?thesis
      by (simp add: updateTodo_def Let_def keyed_by_id_Map_set)
  qed
next
  case (delete s tid)
  then show ?case by (simp add: deleteTodo_def Map_delete_def keyed_by_id_filter)
next
  case (users_changed s us)
  then show ?case by simp
qed

lemma set_getTodos: "set (getTodos s) = snd ` set (todos s)"
proof -
  have "set (getTodos s) = set_mset (mset (getTodos s))" by simp
  also have "\<dots> = set (Map_values (todos s))"
    unfolding getTodos_def mset_Array_sort by simp
  finally show ?thesis by (simp add: Map_values_def)
qed




subsection \<open>Validation of the body of a POST\<close>

lemma insertTodoSchema_text_issue:
  assumes "getParsedType (map_of kvs ''text'') \<noteq> zod_string"
  shows "insertTodoSchema (Some (JObject kvs)) =
     Inl (\<lparr>issue_path = [''text''], issue_expected = zod_string,
           issue_received = getParsedType (map_of kvs ''text'')\<rparr>
          # issues_of (z_optional (z_boolean [''completed'']) (map_of kvs ''completed'')))"
proof -
  have "z_string [''text''] (map_of kvs ''text'') =
      Inl [\<lparr>issue_path = [''text''], issue_expected = zod_string,
            issue_received = getParsedType (map_of kvs ''text'')\<rparr>]"
  proof (cases "map_of kvs ''text''")
    case None
    then show ?thesis by (simp add: z_string_def)
  next
    case (Some j)
    with assms show ?thesis by (cases j) (simp_all add: z_string_def)
  qed
  then show ?thesis
    by (simp add: insertTodoSchema_def issues_of_def split: sum.splits)
qed

text \<open>
  C1, as the code has it. A POST to \<^verbatim>\<open>/api/todos\<close> whose body is an object with no
  \<^verbatim>\<open>text\<close>, or with a \<^verbatim>\<open>text\<close> that is not a string, is rejected by the schema:
  the response is 400, its first validation issue has the path \<^verbatim>\<open>text\<close>, no call is
  made on the store and the store is as it was.
\<close>

theorem POST_rejects_text_that_is_no_string:
  assumes "getParsedType (map_of kvs ''text'') \<noteq> zod_string"
  shows "res (POST_api_todos uuid now (Some (JObject kvs)) s) =
           \<lparr>status = 400,
            sent = Json_invalid ''Invalid todo data''
              (\<lparr>issue_path = [''text''], issue_expected = zod_string,
                issue_received = getParsedType (map_of kvs ''text'')\<rparr>
               # issues_of (z_optional (z_boolean [''completed'']) (map_of kvs ''completed'')))\<rparr>
         \<and> calls (POST_api_todos uuid now (Some (JObject kvs)) s) = []
         \<and> storage (POST_api_todos uuid now (Some (JObject kvs)) s) = s"
  by (simp add: POST_api_todos_def parse_def insertTodoSchema_text_issue [OF assms])

theorem POST_rejects_text_that_is_no_string_witness:
  "getParsedType (map_of [(''completed'', JBoolean True)] ''text'') \<noteq> zod_string
   \<and> res (POST_api_todos ''id-1'' 0 (Some (JObject [(''completed'', JBoolean True)]))
        (MemStorage_new :: unit MemStorage)) =
       \<lparr>status = 400,
        sent = Json_invalid ''Invalid todo data''
          [\<lparr>issue_path = [''text''], issue_expected = zod_string,
            issue_received = zod_undefined\<rparr>]\<rparr>
   \<and> calls (POST_api_todos ''id-1'' 0 (Some (JObject [(''completed'', JBoolean True)]))
        (MemStorage_new :: unit MemStorage)) = []"
proof -
  have h: "getParsedType (map_of [(''completed'', JBoolean True)] ''text'') \<noteq> zod_string"
    by simp
  show ?thesis
    using h POST_rejects_text_that_is_no_string
      [OF h, of "''id-1''" 0 "MemStorage_new :: unit MemStorage"]
    by (simp add: issues_of_def z_optional_def z_boolean_def)
qed

text \<open>
  C1, as the claim has it, fails: the string schema has no minimum length, so the
  body \<^verbatim>\<open>{text: ""}\<close> passes, \<^verbatim>\<open>createTodo\<close> is called, the response is 201 and
  the store holds a todo with the empty text.
\<close>

theorem POST_accepts_empty_text:
  "status (res (POST_api_todos ''id-1'' 0 (Some (JObject [(''text'', JString [])]))
      (MemStorage_new :: unit MemStorage))) = 201
   \<and> calls (POST_api_todos ''id-1'' 0 (Some (JObject [(''text'', JString [])]))
      (MemStorage_new :: unit MemStorage)) =
       [Call_createTodo \<lparr>insert_text = [], insert_completed = Absent\<rparr>]
   \<and> todos (storage (POST_api_todos ''id-1'' 0 (Some (JObject [(''text'', JString [])]))
      (MemStorage_new :: unit MemStorage))) =
       [(''id-1'', \<lparr>todo_id = ''id-1'', todo_text = Some [], todo_completed = None,
                    todo_createdAt = 0\<rparr>)]"
  by (simp add: POST_api_todos_def parse_def insertTodoSchema_def z_string_def
      z_optional_def createTodo_def spread_def MemStorage_new_def Let_def)

subsection \<open>The default of \<open>completed\<close>\<close>

text \<open>
  C2. The claim: a todo created from an input without \<^verbatim>\<open>completed\<close> has
  \<^verbatim>\<open>completed\<close> equal to false. The code: for the body \<^verbatim>\<open>{text: "Buy milk"}\<close> the
  record returned, sent and stored has no \<^verbatim>\<open>completed\<close> at all.
\<close>

theorem createTodo_leaves_completed_undefined:
  "fst (createTodo ''id-1'' 0 \<lparr>insert_text = ''Buy milk'', insert_completed = Absent\<rparr>
      (MemStorage_new :: unit MemStorage)) =
     \<lparr>todo_id = ''id-1'', todo_text = Some ''Buy milk'', todo_completed = None,
      todo_createdAt = 0\<rparr>
   \<and> res (POST_api_todos ''id-1'' 0 (Some (JObject [(''text'', JString ''Buy milk'')]))
      (MemStorage_new :: unit MemStorage)) =
     \<lparr>status = 201,
      sent = Json_todo \<lparr>todo_id = ''id-1'', todo_text = Some ''Buy milk'',
                         todo_completed = None, todo_createdAt = 0\<rparr>\<rparr>
   \<and> getTodo ''id-1'' (storage (POST_api_todos ''id-1'' 0
        (Some (JObject [(''text'', JString ''Buy milk'')])) (MemStorage_new :: unit MemStorage))) =
     Some \<lparr>todo_id = ''id-1'', todo_text = Some ''Buy milk'', todo_completed = None,
           todo_createdAt = 0\<rparr>"
  by (simp add: POST_api_todos_def parse_def insertTodoSchema_def z_string_def
      z_optional_def createTodo_def spread_def MemStorage_new_def Let_def getTodo_def Map_get_def)

subsection \<open>Listing\<close>

lemma sorted_three:
  assumes "mset xs = {#a, b, c#}"
    and "sorted_wrt newer_or_same xs"
    and "todo_createdAt a < todo_createdAt b" and "todo_createdAt b < todo_createdAt c"
  shows "xs = [c, b, a]"
proof -
  have "size (mset xs) = 3" using assms(1) by simp
  then have "length xs = 3" by simp
  then obtain x y z where xs: "xs = [x, y, z]"
    by (auto simp: length_Suc_conv numeral_3_eq_3)
  have s: "set xs = {a, b, c}"
    using assms(1) by (metis set_mset_mset set_mset_add_mset_insert set_mset_empty)
  have "distinct [a, b, c]" using assms(3,4) by auto
  then have "distinct xs"
    using assms(1) by (metis mset.simps(1) mset.simps(2) mset_eq_imp_distinct_iff)
  moreover have "x \<in> {a, b, c}" "y \<in> {a, b, c}" "z \<in> {a, b, c}"
    using xs s by auto
  ultimately show ?thesis
    using xs assms(2,3,4) by auto
qed

text \<open>
  C3. In every state of the store \<^verbatim>\<open>getTodos\<close> returns the todos of the store,
  each as often as the store holds it, ordered by \<^verbatim>\<open>createdAt\<close> descending; a
  store that holds three todos created at \<open>t1 < t2 < t3\<close> gives them as
  \<open>[t3, t2, t1]\<close>; an empty store gives the empty list.
\<close>

theorem getTodos_newest_first:
  "sorted_wrt (\<lambda>a b. todo_createdAt b \<le> todo_createdAt a) (getTodos s)
   \<and> mset (getTodos s) = mset (Map_values (todos s))
   \<and> (mset (Map_values (todos s)) = {#a, b, c#}
        \<and> todo_createdAt a < todo_createdAt b \<and> todo_createdAt b < todo_createdAt c
      \<longrightarrow> getTodos s = [c, b, a])
   \<and> (todos s = [] \<longrightarrow> getTodos s = [])"
proof -
  have 1: "sorted_wrt newer_or_same (getTodos s)"
    unfolding getTodos_def by (rule sorted_Array_sort)
  have 2: "mset (getTodos s) = mset (Map_values (todos s))"
    unfolding getTodos_def by (rule mset_Array_sort)
  have 3: "getTodos s = [c, b, a]"
    if "mset (Map_values (todos s)) = {#a, b, c#}"
      and "todo_createdAt a < todo_createdAt b" and "todo_createdAt b < todo_createdAt c"
    using sorted_three [OF _ 1 that(2,3)] 2 that(1) by simp
  have 4: "getTodos s = []" if "todos s = []"
    using that by (simp add: getTodos_def Map_values_def Array_sort_def)
  from 1 2 3 4 show ?thesis by blast
qed

theorem getTodos_newest_first_witness:
  "getTodos
     (snd (createTodo ''id-3'' 30 \<lparr>insert_text = ''c'', insert_completed = Value False\<rparr>
       (snd (createTodo ''id-2'' 20 \<lparr>insert_text = ''b'', insert_completed = Value False\<rparr>
         (snd (createTodo ''id-1'' 10 \<lparr>insert_text = ''a'', insert_completed = Value False\<rparr>
           (MemStorage_new :: unit MemStorage))))))) =
     [\<lparr>todo_id = ''id-3'', todo_text = Some ''c'', todo_completed = Some False,
       todo_createdAt = 30\<rparr>,
      \<lparr>todo_id = ''id-2'', todo_text = Some ''b'', todo_completed = Some False,
       todo_createdAt = 20\<rparr>,
      \<lparr>todo_id = ''id-1'', todo_text = Some ''a'', todo_completed = Some False,
       todo_createdAt = 10\<rparr>]"
proof -
  let ?a = "\<lparr>todo_id = ''id-1'', todo_text = Some ''a'', todo_completed = Some False,
             todo_createdAt = 10\<rparr>"
  let ?b = "\<lparr>todo_id = ''id-2'', todo_text = Some ''b'', todo_completed = Some False,
             todo_createdAt = 20\<rparr>"
  let ?c = "\<lparr>todo_id = ''id-3'', todo_text = Some ''c'', todo_completed = Some False,
             todo_createdAt = 30\<rparr>"
  let ?s = "snd (createTodo ''id-3'' 30 \<lparr>insert_text = ''c'', insert_completed = Value False\<rparr>
       (snd (createTodo ''id-2'' 20 \<lparr>insert_text = ''b'', insert_completed = Value False\<rparr>
         (snd (createTodo ''id-1'' 10 \<lparr>insert_text = ''a'', insert_completed = Value False\<rparr>
           (MemStorage_new :: unit MemStorage))))))"
  have h: "mset (Map_values (todos ?s)) = {#?a, ?b, ?c#}
      \<and> todo_createdAt ?a < todo_createdAt ?b \<and> todo_createdAt ?b < todo_createdAt ?c"
    by (simp add: createTodo_def Let_def spread_def MemStorage_new_def Map_values_def)
  show ?thesis
    using getTodos_newest_first [of ?s ?a ?b ?c] h by blast
qed

subsection \<open>Updating\<close>

lemma updateTodo_found:
  assumes "getTodo tid s = Some t"
  shows "updateTodo tid updates s =
    (Some (t\<lparr>todo_text := spread (todo_text t) (partial_text updates),
             todo_completed := spread (todo_completed t) (partial_completed updates)\<rparr>),
     s\<lparr>todos := Map_set tid
          (t\<lparr>todo_text := spread (todo_text t) (partial_text updates),
             todo_completed := spread (todo_completed t) (partial_completed updates)\<rparr>)
          (todos s)\<rparr>)"
  using assms by (simp add: updateTodo_def getTodo_def Let_def)

text \<open>
  C4. For a todo \<open>t\<close> stored under \<open>tid\<close>, \<^verbatim>\<open>updateTodo(tid, {completed: true})\<close>
  returns and stores \<open>t\<close> with \<^verbatim>\<open>completed\<close> set to true and everything else as it
  was, and the other entries of the store stay as they were. For any partial input,
  the id and \<^verbatim>\<open>createdAt\<close> of the result are those of \<open>t\<close>, and so is every property
  the input does not have.
\<close>

theorem updateTodo_changes_only_given_fields:
  assumes "getTodo tid s = Some t"
  shows "fst (updateTodo tid \<lparr>partial_text = Absent, partial_completed = Value True\<rparr> s) =
           Some (t\<lparr>todo_completed := Some True\<rparr>)
       \<and> (\<exists>t'. fst (updateTodo tid updates s) = Some t'
             \<and> getTodo tid (snd (updateTodo tid updates s)) = Some t'
             \<and> todo_id t' = todo_id t
             \<and> todo_createdAt t' = todo_createdAt t
             \<and> (partial_text updates = Absent \<longrightarrow> todo_text t' = todo_text t)
             \<and> (partial_completed updates = Absent \<longrightarrow> todo_completed t' = todo_completed t))
       \<and> (\<forall>k. k \<noteq> tid \<longrightarrow> getTodo k (snd (updateTodo tid updates s)) = getTodo k s)
       \<and> users (snd (updateTodo tid updates s)) = users s"
proof -
  have 1: "fst (updateTodo tid \<lparr>partial_text = Absent, partial_completed = Value True\<rparr> s) =
      Some (t\<lparr>todo_completed := Some True\<rparr>)"
    by (simp add: updateTodo_found [OF assms] spread_def)
  have 2: "\<exists>t'. fst (updateTodo tid updates s) = Some t'
             \<and> getTodo tid (snd (updateTodo tid updates s)) = Some t'
             \<and> todo_id t' = todo_id t
             \<and> todo_createdAt t' = todo_createdAt t
             \<and> (partial_text updates = Absent \<longrightarrow> todo_text t' = todo_text t)
             \<and> (partial_completed updates = Absent \<longrightarrow> todo_completed t' = todo_completed t)"
    by (simp add: updateTodo_found [OF assms] spread_def getTodo_def Map_get_Map_set)
  have 3: "\<forall>k. k \<noteq> tid \<longrightarrow> getTodo k (snd (updateTodo tid updates s)) = getTodo k s"
    by (simp add: updateTodo_found [OF assms] getTodo_def Map_get_Map_set)
  have 4: "users (snd (updateTodo tid updates s)) = users s"
    by (simp add: updateTodo_found [OF assms])
  from 1 2 3 4 show ?thesis by blast
qed

theorem updateTodo_changes_only_given_fields_witness:
  "getTodo ''id-1''
     \<lparr>users = [] :: unit js_map,
      todos = [(''id-1'', \<lparr>todo_id = ''id-1'', todo_text = Some ''Buy milk'',
                            todo_completed = Some False, todo_createdAt = 10\<rparr>)]\<rparr> =
     Some \<lparr>todo_id = ''id-1'', todo_text = Some ''Buy milk'',
           todo_completed = Some False, todo_createdAt = 10\<rparr>
   \<and> fst (updateTodo ''id-1'' \<lparr>partial_text = Absent, partial_completed = Value True\<rparr>
       \<lparr>users = [] :: unit js_map,
        todos = [(''id-1'', \<lparr>todo_id = ''id-1'', todo_text = Some ''Buy milk'',
                              todo_completed = Some False, todo_createdAt = 10\<rparr>)]\<rparr>) =
     Some \<lparr>todo_id = ''id-1'', todo_text = Some ''Buy milk'',
           todo_completed = Some True, todo_createdAt = 10\<rparr>"
proof -
  let ?t = "\<lparr>todo_id = ''id-1'', todo_text = Some ''Buy milk'',
             todo_completed = Some False, todo_createdAt = 10\<rparr>"
  let ?s = "\<lparr>users = [] :: unit js_map, todos = [(''id-1'', ?t)]\<rparr>"
  have h: "getTodo ''id-1'' ?s = Some ?t"
    by (simp add: getTodo_def Map_get_def)
  show ?thesis
    using h updateTodo_changes_only_given_fields [OF h] by simp
qed

text \<open>
  C7. For an id that is no key of the store, \<^verbatim>\<open>updateTodo\<close> returns absent and the
  store it leaves is the store it found; in particular the list of todos is as long
  as before and the id is still no key.
\<close>

theorem updateTodo_missing_id:
  assumes "getTodo tid s = None"
  shows "updateTodo tid updates s = (None, s)
       \<and> length (getTodos (snd (updateTodo tid updates s))) = length (getTodos s)
       \<and> getTodo tid (snd (updateTodo tid updates s)) = None"
  using assms by (simp add: updateTodo_def getTodo_def)

theorem updateTodo_missing_id_witness:
  "getTodo ''id-9'' (MemStorage_new :: unit MemStorage) = None
   \<and> updateTodo ''id-9'' \<lparr>partial_text = Value ''x'', partial_completed = Value True\<rparr>
       (MemStorage_new :: unit MemStorage) = (None, MemStorage_new)"
proof -
  have h: "getTodo ''id-9'' (MemStorage_new :: unit MemStorage) = None"
    by (simp add: getTodo_def Map_get_def MemStorage_new_def)
  show ?thesis
    using h updateTodo_missing_id [OF h] by simp
qed

text \<open>
  C10. The body \<^verbatim>\<open>{}\<close> passes the partial schema, as the update with no property;
  for a todo \<open>t\<close> stored under \<open>tid\<close>, that update returns \<open>t\<close> and leaves the store
  as it was, and the PATCH answers 200 with \<open>t\<close>.
\<close>

theorem empty_update_is_identity:
  "parse insertTodoSchema_partial (Some (JObject [])) =
     Inr \<lparr>partial_text = Absent, partial_completed = Absent\<rparr>
   \<and> (getTodo tid s = Some t \<longrightarrow>
        updateTodo tid \<lparr>partial_text = Absent, partial_completed = Absent\<rparr> s = (Some t, s)
        \<and> PATCH_api_todos_id tid (Some (JObject [])) s =
            \<lparr>res = \<lparr>status = 200, sent = Json_todo t\<rparr>, storage = s,
             calls = [Call_updateTodo tid \<lparr>partial_text = Absent, partial_completed = Absent\<rparr>]\<rparr>)"
proof -
  have p: "parse insertTodoSchema_partial (Some (JObject [])) =
      Inr \<lparr>partial_text = Absent, partial_completed = Absent\<rparr>"
    by (simp add: parse_def insertTodoSchema_partial_def z_optional_def)
  have u: "updateTodo tid \<lparr>partial_text = Absent, partial_completed = Absent\<rparr> s = (Some t, s)"
    if "getTodo tid s = Some t"
  proof -
    have "Map_set tid t (todos s) = todos s"
      using that by (simp add: getTodo_def Map_get_def Map_set_unchanged)
    then show ?thesis
      by (simp add: updateTodo_found [OF that] spread_def)
  qed
  from p u show ?thesis
    by (simp add: PATCH_api_todos_id_def)
qed

theorem empty_update_is_identity_witness:
  "getTodo ''id-1''
     \<lparr>users = [] :: unit js_map,
      todos = [(''id-1'', \<lparr>todo_id = ''id-1'', todo_text = Some ''Buy milk'',
                            todo_completed = Some False, todo_createdAt = 10\<rparr>)]\<rparr> =
     Some \<lparr>todo_id = ''id-1'', todo_text = Some ''Buy milk'',
           todo_completed = Some False, todo_createdAt = 10\<rparr>
   \<and> res (PATCH_api_todos_id ''id-1'' (Some (JObject []))
       \<lparr>users = [] :: unit js_map,
        todos = [(''id-1'', \<lparr>todo_id = ''id-1'', todo_text = Some ''Buy milk'',
                              todo_completed = Some False, todo_createdAt = 10\<rparr>)]\<rparr>) =
     \<lparr>status = 200,
      sent = Json_todo \<lparr>todo_id = ''id-1'', todo_text = Some ''Buy milk'',
                         todo_completed = Some False, todo_createdAt = 10\<rparr>\<rparr>
   \<and> storage (PATCH_api_todos_id ''id-1'' (Some (JObject []))
       \<lparr>users = [] :: unit js_map,
        todos = [(''id-1'', \<lparr>todo_id = ''id-1'', todo_text = Some ''Buy milk'',
                              todo_completed = Some False, todo_createdAt = 10\<rparr>)]\<rparr>) =
     \<lparr>users = [] :: unit js_map,
      todos = [(''id-1'', \<lparr>todo_id = ''id-1'', todo_text = Some ''Buy milk'',
                            todo_completed = Some False, todo_createdAt = 10\<rparr>)]\<rparr>"
proof -
  let ?t = "\<lparr>todo_id = ''id-1'', todo_text = Some ''Buy milk'',
             todo_completed = Some False, todo_createdAt = 10\<rparr>"
  let ?s = "\<lparr>users = [] :: unit js_map, todos = [(''id-1'', ?t)]\<rparr>"
  have h: "getTodo ''id-1'' ?s = Some ?t"
    by (simp add: getTodo_def Map_get_def)
  show ?thesis
    using h empty_update_is_identity [of "''id-1''" ?s ?t] by simp
qed

subsection \<open>Deleting\<close>

lemma deleteTodo_eq:
  "deleteTodo tid s =
     (getTodo tid s \<noteq> None, s\<lparr>todos := filter (\<lambda>e. fst e \<noteq> tid) (todos s)\<rparr>)"
  by (simp add: deleteTodo_def Map_delete_def Map_has_iff getTodo_def Map_get_def)

text \<open>
  C6. \<^verbatim>\<open>deleteTodo\<close> on the id of a stored todo reports a removal, and
  \<^verbatim>\<open>getTodo\<close> on that id is absent afterwards; the other entries stay. On the store
  a delete has left, a second delete of the same id reports false and leaves that
  store as it is: deleting twice ends in the state that deleting once ends in.
\<close>

theorem deleteTodo_removes_and_is_idempotent:
  "(getTodo tid s = Some t \<longrightarrow> fst (deleteTodo tid s))
   \<and> getTodo tid (snd (deleteTodo tid s)) = None
   \<and> deleteTodo tid (snd (deleteTodo tid s)) = (False, snd (deleteTodo tid s))
   \<and> (\<forall>k. k \<noteq> tid \<longrightarrow> getTodo k (snd (deleteTodo tid s)) = getTodo k s)"
proof -
  have 1: "getTodo tid (snd (deleteTodo tid s)) = None"
    by (simp add: deleteTodo_eq getTodo_def Map_get_def map_of_filter_key)
  have 2: "deleteTodo tid (snd (deleteTodo tid s)) = (False, snd (deleteTodo tid s))"
    unfolding deleteTodo_eq [of tid "snd (deleteTodo tid s)"] 1
    by (simp add: deleteTodo_eq)
  have 3: "getTodo k (snd (deleteTodo tid s)) = getTodo k s" if "k \<noteq> tid" for k
    using that by (simp add: deleteTodo_eq getTodo_def Map_get_def map_of_filter_key)
  from 1 2 3 show ?thesis
    by (simp add: deleteTodo_eq)
qed

theorem deleteTodo_removes_and_is_idempotent_witness:
  "getTodo ''id-1''
     \<lparr>users = [] :: unit js_map,
      todos = [(''id-1'', \<lparr>todo_id = ''id-1'', todo_text = Some ''Buy milk'',
                            todo_completed = Some False, todo_createdAt = 10\<rparr>)]\<rparr> =
     Some \<lparr>todo_id = ''id-1'', todo_text = Some ''Buy milk'',
           todo_completed = Some False, todo_createdAt = 10\<rparr>
   \<and> fst (deleteTodo ''id-1''
       \<lparr>users = [] :: unit js_map,
        todos = [(''id-1'', \<lparr>todo_id = ''id-1'', todo_text = Some ''Buy milk'',
                              todo_completed = Some False, todo_createdAt = 10\<rparr>)]\<rparr>)
   \<and> getTodo ''id-1'' (snd (deleteTodo ''id-1''
       \<lparr>users = [] :: unit js_map,
        todos = [(''id-1'', \<lparr>todo_id = ''id-1'', todo_text = Some ''Buy milk'',
                              todo_completed = Some False, todo_createdAt = 10\<rparr>)]\<rparr>)) = None"
proof -
  let ?t = "\<lparr>todo_id = ''id-1'', todo_text = Some ''Buy milk'',
             todo_completed = Some False, todo_createdAt = 10\<rparr>"
  let ?s = "\<lparr>users = [] :: unit js_map, todos = [(''id-1'', ?t)]\<rparr>"
  have h: "getTodo ''id-1'' ?s = Some ?t"
    by (simp add: getTodo_def Map_get_def)
  show ?thesis
    using h deleteTodo_removes_and_is_idempotent [of "''id-1''" ?s ?t] by simp
qed

subsection \<open>Status codes\<close>

lemma POST_valid:
  assumes "insertTodoSchema b = Inr v"
  shows "POST_api_todos uuid now b s =
     \<lparr>res = \<lparr>status = 201, sent = Json_todo (fst (createTodo uuid now v s))\<rparr>,
      storage = snd (createTodo uuid now v s), calls = [Call_createTodo v]\<rparr>"
  using assms by (simp add: POST_api_todos_def parse_def split: prod.splits)

lemma POST_invalid:
  assumes "insertTodoSchema b = Inl errs"
  shows "POST_api_todos uuid now b s =
     \<lparr>res = \<lparr>status = 400, sent = Json_invalid ''Invalid todo data'' errs\<rparr>,
      storage = s, calls = []\<rparr>"
  using assms by (simp add: POST_api_todos_def parse_def)

lemma PATCH_valid:
  assumes "insertTodoSchema_partial b = Inr u"
  shows "PATCH_api_todos_id tid b s =
     \<lparr>res = (case fst (updateTodo tid u s) of
               None \<Rightarrow> \<lparr>status = 404, sent = Json_message ''Todo not found''\<rparr>
             | Some t' \<Rightarrow> \<lparr>status = 200, sent = Json_todo t'\<rparr>),
      storage = snd (updateTodo tid u s), calls = [Call_updateTodo tid u]\<rparr>"
  using assms by (simp add: PATCH_api_todos_id_def parse_def split: prod.splits option.splits)

lemma PATCH_invalid:
  assumes "insertTodoSchema_partial b = Inl errs"
  shows "PATCH_api_todos_id tid b s =
     \<lparr>res = \<lparr>status = 400, sent = Json_invalid ''Invalid update data'' errs\<rparr>,
      storage = s, calls = []\<rparr>"
  using assms by (simp add: PATCH_api_todos_id_def parse_def)

lemma DELETE_eq:
  "DELETE_api_todos_id tid s =
     \<lparr>res = (if fst (deleteTodo tid s) then \<lparr>status = 204, sent = Empty\<rparr>
             else \<lparr>status = 404, sent = Json_message ''Todo not found''\<rparr>),
      storage = snd (deleteTodo tid s), calls = [Call_deleteTodo tid]\<rparr>"
  by (simp add: DELETE_api_todos_id_def split: prod.splits bool.splits)

lemma updateTodo_absent_unchanged:
  "fst (updateTodo tid u s) = None \<Longrightarrow> snd (updateTodo tid u s) = s"
  by (simp add: updateTodo_def Let_def split: option.splits)

lemma getTodo_after_deleteTodo: "getTodo tid (snd (deleteTodo tid s)) = None"
  by (simp add: deleteTodo_eq getTodo_def Map_get_def map_of_filter_key)

lemma deleteTodo_nothing_removed:
  assumes "\<not> fst (deleteTodo tid s)"
  shows "snd (deleteTodo tid s) = s"
proof -
  from assms have "map_of (todos s) tid = None"
    by (simp add: deleteTodo_eq getTodo_def Map_get_def)
  then have "tid \<notin> fst ` set (todos s)"
    by (simp add: map_of_eq_None_iff)
  then have "filter (\<lambda>e. fst e \<noteq> tid) (todos s) = todos s"
    by (rule filter_key_absent)
  then show ?thesis
    by (simp add: deleteTodo_eq)
qed

text \<open>
  C5. The status of every response, with what the handler did to the store. Listing
  calls \<^verbatim>\<open>getTodos\<close> and answers 200 with the list. Reading one todo calls
  \<^verbatim>\<open>getTodo\<close> and answers 200 with the todo when the store returns it and 404 when
  the store returns absent. A POST whose body passes the schema calls
  \<^verbatim>\<open>createTodo\<close>, answers 201 with what it returned and leaves the store it made. A
  PATCH whose body passes the partial schema calls \<^verbatim>\<open>updateTodo\<close> and answers 200
  with the todo it returned, leaving the updated store, and 404 when it returned
  absent, the store being as it was. A DELETE calls \<^verbatim>\<open>deleteTodo\<close>; when the store
  reports a removal it answers 204 with an empty body, the store left is the one the
  removal made and the id is no longer found in it; when the store reports none it
  answers 404 and the store is as it was. A POST or PATCH whose body fails its schema
  answers 400 with the issues, makes no call on the store and leaves it as it was.
\<close>

theorem status_codes:
  "res (GET_api_todos s) = \<lparr>status = 200, sent = Json_todos (getTodos s)\<rparr>
   \<and> storage (GET_api_todos s) = s
   \<and> calls (GET_api_todos s) = [Call_getTodos]
   \<and> (\<forall>t. getTodo tid s = Some t \<longrightarrow>
         res (GET_api_todos_id tid s) = \<lparr>status = 200, sent = Json_todo t\<rparr>
         \<and> storage (GET_api_todos_id tid s) = s
         \<and> calls (GET_api_todos_id tid s) = [Call_getTodo tid])
   \<and> (getTodo tid s = None \<longrightarrow>
         res (GET_api_todos_id tid s) =
           \<lparr>status = 404, sent = Json_message ''Todo not found''\<rparr>
         \<and> storage (GET_api_todos_id tid s) = s
         \<and> calls (GET_api_todos_id tid s) = [Call_getTodo tid])
   \<and> (\<forall>v. insertTodoSchema b = Inr v \<longrightarrow>
         res (POST_api_todos uuid now b s) =
           \<lparr>status = 201, sent = Json_todo (fst (createTodo uuid now v s))\<rparr>
         \<and> storage (POST_api_todos uuid now b s) = snd (createTodo uuid now v s)
         \<and> calls (POST_api_todos uuid now b s) = [Call_createTodo v])
   \<and> (\<forall>errs. insertTodoSchema b = Inl errs \<longrightarrow>
         res (POST_api_todos uuid now b s) =
           \<lparr>status = 400, sent = Json_invalid ''Invalid todo data'' errs\<rparr>
         \<and> calls (POST_api_todos uuid now b s) = []
         \<and> storage (POST_api_todos uuid now b s) = s)
   \<and> (\<forall>u t'. insertTodoSchema_partial b = Inr u \<and> fst (updateTodo tid u s) = Some t' \<longrightarrow>
         res (PATCH_api_todos_id tid b s) = \<lparr>status = 200, sent = Json_todo t'\<rparr>
         \<and> storage (PATCH_api_todos_id tid b s) = snd (updateTodo tid u s)
         \<and> calls (PATCH_api_todos_id tid b s) = [Call_updateTodo tid u])
   \<and> (\<forall>u. insertTodoSchema_partial b = Inr u \<and> fst (updateTodo tid u s) = None \<longrightarrow>
         res (PATCH_api_todos_id tid b s) =
           \<lparr>status = 404, sent = Json_message ''Todo not found''\<rparr>
         \<and> storage (PATCH_api_todos_id tid b s) = s
         \<and> calls (PATCH_api_todos_id tid b s) = [Call_updateTodo tid u])
   \<and> (\<forall>errs. insertTodoSchema_partial b = Inl errs \<longrightarrow>
         res (PATCH_api_todos_id tid b s) =
           \<lparr>status = 400, sent = Json_invalid ''Invalid update data'' errs\<rparr>
         \<and> calls (PATCH_api_todos_id tid b s) = []
         \<and> storage (PATCH_api_todos_id tid b s) = s)
   \<and> (fst (deleteTodo tid s) \<longrightarrow>
         res (DELETE_api_todos_id tid s) = \<lparr>status = 204, sent = Empty\<rparr>
         \<and> storage (DELETE_api_todos_id tid s) = snd (deleteTodo tid s)
         \<and> calls (DELETE_api_todos_id tid s) = [Call_deleteTodo tid]
         \<and> getTodo tid (storage (DELETE_api_todos_id tid s)) = None)
   \<and> (\<not> fst (deleteTodo tid s) \<longrightarrow>
         res (DELETE_api_todos_id tid s) =
           \<lparr>status = 404, sent = Json_message ''Todo not found''\<rparr>
         \<and> storage (DELETE_api_todos_id tid s) = s
         \<and> calls (DELETE_api_todos_id tid s) = [Call_deleteTodo tid])"
proof -
  have g: "res (GET_api_todos s) = \<lparr>status = 200, sent = Json_todos (getTodos s)\<rparr>
         \<and> storage (GET_api_todos s) = s
         \<and> calls (GET_api_todos s) = [Call_getTodos]"
    by (simp add: GET_api_todos_def)
  have g1: "res (GET_api_todos_id tid s) = \<lparr>status = 200, sent = Json_todo t\<rparr>
         \<and> storage (GET_api_todos_id tid s) = s
         \<and> calls (GET_api_todos_id tid s) = [Call_getTodo tid]"
    if "getTodo tid s = Some t" for t
    using that by (simp add: GET_api_todos_id_def)
  have g2: "res (GET_api_todos_id tid s) =
           \<lparr>status = 404, sent = Json_message ''Todo not found''\<rparr>
         \<and> storage (GET_api_todos_id tid s) = s
         \<and> calls (GET_api_todos_id tid s) = [Call_getTodo tid]"
    if "getTodo tid s = None"
    using that by (simp add: GET_api_todos_id_def)
  have c1: "res (POST_api_todos uuid now b s) =
           \<lparr>status = 201, sent = Json_todo (fst (createTodo uuid now v s))\<rparr>
         \<and> storage (POST_api_todos uuid now b s) = snd (createTodo uuid now v s)
         \<and> calls (POST_api_todos uuid now b s) = [Call_createTodo v]"
    if "insertTodoSchema b = Inr v" for v
    by (simp add: POST_valid [OF that])
  have c2: "res (POST_api_todos uuid now b s) =
           \<lparr>status = 400, sent = Json_invalid ''Invalid todo data'' errs\<rparr>
         \<and> calls (POST_api_todos uuid now b s) = []
         \<and> storage (POST_api_todos uuid now b s) = s"
    if "insertTodoSchema b = Inl errs" for errs
    by (simp add: POST_invalid [OF that])
  have p1: "res (PATCH_api_todos_id tid b s) = \<lparr>status = 200, sent = Json_todo t'\<rparr>
         \<and> storage (PATCH_api_todos_id tid b s) = snd (updateTodo tid u s)
         \<and> calls (PATCH_api_todos_id tid b s) = [Call_updateTodo tid u]"
    if "insertTodoSchema_partial b = Inr u \<and> fst (updateTodo tid u s) = Some t'" for u t'
    using that by (simp add: PATCH_valid)
  have p2: "res (PATCH_api_todos_id tid b s) =
           \<lparr>status = 404, sent = Json_message ''Todo not found''\<rparr>
         \<and> storage (PATCH_api_todos_id tid b s) = s
         \<and> calls (PATCH_api_todos_id tid b s) = [Call_updateTodo tid u]"
    if "insertTodoSchema_partial b = Inr u \<and> fst (updateTodo tid u s) = None" for u
    using that by (simp add: PATCH_valid updateTodo_absent_unchanged)
  have p3: "res (PATCH_api_todos_id tid b s) =
           \<lparr>status = 400, sent = Json_invalid ''Invalid update data'' errs\<rparr>
         \<and> calls (PATCH_api_todos_id tid b s) = []
         \<and> storage (PATCH_api_todos_id tid b s) = s"
    if "insertTodoSchema_partial b = Inl errs" for errs
    by (simp add: PATCH_invalid [OF that])
  have d1: "res (DELETE_api_todos_id tid s) = \<lparr>status = 204, sent = Empty\<rparr>
         \<and> storage (DELETE_api_todos_id tid s) = snd (deleteTodo tid s)
         \<and> calls (DELETE_api_todos_id tid s) = [Call_deleteTodo tid]
         \<and> getTodo tid (storage (DELETE_api_todos_id tid s)) = None"
    if "fst (deleteTodo tid s)"
    using that by (simp add: DELETE_eq getTodo_after_deleteTodo)
  have d2: "res (DELETE_api_todos_id tid s) =
           \<lparr>status = 404, sent = Json_message ''Todo not found''\<rparr>
         \<and> storage (DELETE_api_todos_id tid s) = s
         \<and> calls (DELETE_api_todos_id tid s) = [Call_deleteTodo tid]"
    if "\<not> fst (deleteTodo tid s)"
    using that by (simp add: DELETE_eq deleteTodo_nothing_removed)
  from g g1 g2 c1 c2 p1 p2 p3 d1 d2 show ?thesis
    by blast
qed

theorem status_codes_witness:
  "status (res (GET_api_todos_id ''id-1''
      \<lparr>users = [] :: unit js_map,
       todos = [(''id-1'', \<lparr>todo_id = ''id-1'', todo_text = Some ''Buy milk'',
                             todo_completed = Some False, todo_createdAt = 10\<rparr>)]\<rparr>)) = 200
   \<and> status (res (POST_api_todos ''id-2'' 20
        (Some (JObject [(''text'', JString ''Walk''), (''completed'', JBoolean True)]))
      \<lparr>users = [] :: unit js_map,
       todos = [(''id-1'', \<lparr>todo_id = ''id-1'', todo_text = Some ''Buy milk'',
                             todo_completed = Some False, todo_createdAt = 10\<rparr>)]\<rparr>)) = 201
   \<and> status (res (PATCH_api_todos_id ''id-1''
        (Some (JObject [(''text'', JString ''Walk''), (''completed'', JBoolean True)]))
      \<lparr>users = [] :: unit js_map,
       todos = [(''id-1'', \<lparr>todo_id = ''id-1'', todo_text = Some ''Buy milk'',
                             todo_completed = Some False, todo_createdAt = 10\<rparr>)]\<rparr>)) = 200
   \<and> res (DELETE_api_todos_id ''id-1''
      \<lparr>users = [] :: unit js_map,
       todos = [(''id-1'', \<lparr>todo_id = ''id-1'', todo_text = Some ''Buy milk'',
                             todo_completed = Some False, todo_createdAt = 10\<rparr>)]\<rparr>) =
       \<lparr>status = 204, sent = Empty\<rparr>
   \<and> todos (storage (DELETE_api_todos_id ''id-1''
      \<lparr>users = [] :: unit js_map,
       todos = [(''id-1'', \<lparr>todo_id = ''id-1'', todo_text = Some ''Buy milk'',
                             todo_completed = Some False, todo_createdAt = 10\<rparr>)]\<rparr>)) = []
   \<and> calls (DELETE_api_todos_id ''id-1''
      \<lparr>users = [] :: unit js_map,
       todos = [(''id-1'', \<lparr>todo_id = ''id-1'', todo_text = Some ''Buy milk'',
                             todo_completed = Some False, todo_createdAt = 10\<rparr>)]\<rparr>) =
       [Call_deleteTodo ''id-1'']
   \<and> status (res (GET_api_todos_id ''id-9'' (MemStorage_new :: unit MemStorage))) = 404
   \<and> status (res (PATCH_api_todos_id ''id-9'' (Some (JObject []))
        (MemStorage_new :: unit MemStorage))) = 404
   \<and> status (res (DELETE_api_todos_id ''id-9'' (MemStorage_new :: unit MemStorage))) = 404
   \<and> status (res (POST_api_todos ''id-2'' 20 (Some (JArray []))
        (MemStorage_new :: unit MemStorage))) = 400
   \<and> calls (POST_api_todos ''id-2'' 20 (Some (JArray []))
        (MemStorage_new :: unit MemStorage)) = []
   \<and> status (res (PATCH_api_todos_id ''id-9'' (Some (JArray []))
        (MemStorage_new :: unit MemStorage))) = 400
   \<and> calls (PATCH_api_todos_id ''id-9'' (Some (JArray []))
        (MemStorage_new :: unit MemStorage)) = []"
proof -
  let ?t = "\<lparr>todo_id = ''id-1'', todo_text = Some ''Buy milk'',
             todo_completed = Some False, todo_createdAt = 10\<rparr>"
  let ?s = "\<lparr>users = [] :: unit js_map, todos = [(''id-1'', ?t)]\<rparr>"
  let ?b = "Some (JObject [(''text'', JString ''Walk''), (''completed'', JBoolean True)])"
  let ?n = "MemStorage_new :: unit MemStorage"
  have found: "getTodo ''id-1'' ?s = Some ?t"
    and valid: "insertTodoSchema ?b = Inr \<lparr>insert_text = ''Walk'', insert_completed = Value True\<rparr>"
    and valid_partial: "insertTodoSchema_partial ?b =
        Inr \<lparr>partial_text = Value ''Walk'', partial_completed = Value True\<rparr>"
    and updated: "fst (updateTodo ''id-1''
        \<lparr>partial_text = Value ''Walk'', partial_completed = Value True\<rparr> ?s) =
        Some (?t\<lparr>todo_text := Some ''Walk'', todo_completed := Some True\<rparr>)"
    and removed: "fst (deleteTodo ''id-1'' ?s)"
    and store_left: "snd (deleteTodo ''id-1'' ?s) = \<lparr>users = [], todos = []\<rparr>"
    by (simp_all add: getTodo_def Map_get_def insertTodoSchema_def insertTodoSchema_partial_def
        z_string_def z_boolean_def z_optional_def updateTodo_def spread_def Let_def
        deleteTodo_def Map_delete_def Map_has_def)
  have missing: "getTodo ''id-9'' ?n = None"
    and empty_valid: "insertTodoSchema_partial (Some (JObject [])) =
        Inr \<lparr>partial_text = Absent, partial_completed = Absent\<rparr>"
    and not_updated: "fst (updateTodo ''id-9''
        \<lparr>partial_text = Absent, partial_completed = Absent\<rparr> ?n) = None"
    and not_removed: "\<not> fst (deleteTodo ''id-9'' ?n)"
    and invalid: "insertTodoSchema (Some (JArray [])) =
        Inl [\<lparr>issue_path = [], issue_expected = zod_object, issue_received = zod_array\<rparr>]"
    and invalid_partial: "insertTodoSchema_partial (Some (JArray [])) =
        Inl [\<lparr>issue_path = [], issue_expected = zod_object, issue_received = zod_array\<rparr>]"
    by (simp_all add: getTodo_def Map_get_def insertTodoSchema_def insertTodoSchema_partial_def
        z_optional_def updateTodo_def deleteTodo_def Map_delete_def Map_has_def
        MemStorage_new_def)
  show ?thesis
    using status_codes [of ?s "''id-1''" ?b "''id-2''" 20]
      status_codes [of ?n "''id-9''" "Some (JObject [])" "''id-2''" 20]
      status_codes [of ?n "''id-9''" "Some (JArray [])" "''id-2''" 20]
      found valid valid_partial updated removed store_left
      missing empty_valid not_updated not_removed invalid invalid_partial
    by simp
qed

subsection \<open>Ids\<close>

text \<open>
  C9. In every state the operations can reach, each todo that \<^verbatim>\<open>getTodos\<close> lists
  is what \<^verbatim>\<open>getTodo\<close> returns for its own id, and a todo found under a key has
  that key as its id.
\<close>

theorem key_consistency:
  assumes "reachable s"
  shows "(\<forall>t \<in> set (getTodos s). getTodo (todo_id t) s = Some t)
       \<and> (\<forall>k t. getTodo k s = Some t \<longrightarrow> todo_id t = k)"
proof -
  have inv: "keyed_by_id (todos s)"
    using assms by (rule reachable_keyed_by_id)
  have 1: "getTodo (todo_id t) s = Some t" if "t \<in> set (getTodos s)" for t
  proof -
    from that obtain e where e: "e \<in> set (todos s)" and t: "t = snd e"
      unfolding set_getTodos by blast
    from inv e have "todo_id (snd e) = fst e" by (simp add: keyed_by_id_def)
    moreover from inv e have "map_of (todos s) (fst e) = Some (snd e)"
      by (simp add: keyed_by_id_def)
    ultimately show ?thesis by (simp add: t getTodo_def Map_get_def)
  qed
  have 2: "todo_id t = k" if "getTodo k s = Some t" for k t
  proof -
    from that have "(k, t) \<in> set (todos s)"
      by (simp add: getTodo_def Map_get_def map_of_SomeD)
    with inv show ?thesis by (force simp: keyed_by_id_def)
  qed
  from 1 2 show ?thesis by blast
qed

theorem key_consistency_witness:
  "reachable (snd (updateTodo ''id-1'' \<lparr>partial_text = Absent, partial_completed = Value True\<rparr>
      (snd (createTodo ''id-1'' 10 \<lparr>insert_text = ''Buy milk'', insert_completed = Absent\<rparr>
        (MemStorage_new :: unit MemStorage)))))
   \<and> getTodo ''id-1''
       (snd (updateTodo ''id-1'' \<lparr>partial_text = Absent, partial_completed = Value True\<rparr>
         (snd (createTodo ''id-1'' 10 \<lparr>insert_text = ''Buy milk'', insert_completed = Absent\<rparr>
           (MemStorage_new :: unit MemStorage))))) =
     Some \<lparr>todo_id = ''id-1'', todo_text = Some ''Buy milk'', todo_completed = Some True,
           todo_createdAt = 10\<rparr>"
proof -
  let ?s = "snd (updateTodo ''id-1'' \<lparr>partial_text = Absent, partial_completed = Value True\<rparr>
      (snd (createTodo ''id-1'' 10 \<lparr>insert_text = ''Buy milk'', insert_completed = Absent\<rparr>
        (MemStorage_new :: unit MemStorage))))"
  let ?t = "\<lparr>todo_id = ''id-1'', todo_text = Some ''Buy milk'', todo_completed = Some True,
             todo_createdAt = 10\<rparr>"
  have r: "reachable ?s"
    by (intro reachable.update reachable.create reachable.new)
  have l: "getTodos ?s = [?t]"
    by (simp add: getTodos_def Map_values_def Array_sort_def updateTodo_def createTodo_def
        Let_def spread_def MemStorage_new_def Map_get_def)
  show ?thesis
    using r l key_consistency [OF r] by simp
qed




end
